theory Spec2Isabelle
  imports Complex_Main "HOL-Library.Monad_Syntax"
begin

section \<open>Values, rows and data frames\<close>

text \<open>
  The generators build each row as a Python dict and hand the list of dicts to pandas.
  A cell is what such a dict or a DataFrame holds: \<open>CNone\<close> stands for \<open>None\<close>,
  \<open>NaN\<close> and \<open>NaT\<close> alike; \<open>CTs\<close> is a \<open>datetime\<close> in microseconds since the
  epoch; \<open>CDate\<close> is a \<open>date\<close> in days since the epoch; \<open>CNum\<close> is a float, kept as
  a rational (binary rounding is not modelled). A row is an association list in key
  order, as a dict is; a data frame is its column index with its rows, addressed by
  position (the generators only ever build frames with a fresh \<open>RangeIndex\<close>).
  A raised Python exception is the result \<open>None\<close>.
\<close>

datatype cell = CNone | CStr string | CInt int | CNum rat | CTs int | CDate int

type_synonym row = "(string \<times> cell) list"

record dataframe =
  columns :: "string list"
  rows :: "row list"

definition getitem :: "row \<Rightarrow> string \<Rightarrow> cell option" where
  \<comment> \<open>\<open>row[col]\<close>: KeyError when the key is absent\<close>
  "getitem r col = map_of r col"

definition put :: "string \<Rightarrow> cell \<Rightarrow> row \<Rightarrow> row" where
  \<comment> \<open>\<open>row[col] = v\<close>: an existing key keeps its place, a new key goes last\<close>
  "put col v r =
     (if col \<in> fst ` set r then map (\<lambda>(k, x). if k = col then (k, v) else (k, x)) r
      else r @ [(col, v)])"

definition from_records :: "row list \<Rightarrow> dataframe" where
  \<comment> \<open>\<open>pd.DataFrame(list_of_dicts)\<close> for dicts that all have the same keys\<close>
  "from_records rs = \<lparr>columns = (case rs of [] \<Rightarrow> [] | r # _ \<Rightarrow> map fst r), rows = rs\<rparr>"

definition set_cells :: "nat list \<Rightarrow> string \<Rightarrow> cell \<Rightarrow> dataframe \<Rightarrow> dataframe" where
  \<comment> \<open>\<open>df.loc[indices, col] = v\<close>\<close>
  "set_cells indices col v df =
     df\<lparr>rows := map (\<lambda>i. if i \<in> set indices then put col v (rows df ! i) else rows df ! i)
                    [0..<length (rows df)]\<rparr>"

definition py_int :: "rat \<Rightarrow> int" where
  \<comment> \<open>\<open>int(x)\<close> of a float: truncation towards zero\<close>
  "py_int x = (if 0 \<le> x then \<lfloor>x\<rfloor> else \<lceil>x\<rceil>)"

definition days :: "int \<Rightarrow> int" where
  \<comment> \<open>\<open>timedelta(days=n)\<close> in microseconds\<close>
  "days n = n * 86400000000"

definition hours :: "int \<Rightarrow> int" where
  "hours n = n * 3600000000"

definition seconds :: "int \<Rightarrow> int" where
  "seconds n = n * 1000000"

section \<open>Random generators and the clock\<close>

text \<open>
  Neither the Mersenne Twister nor the wall clock is modelled bit by bit. A generator is
  a sequence of raw draws with a read position; every library call takes one raw draw
  per value it returns and maps it into the range its documentation gives. Since the
  sequence is arbitrary, every outcome the library can produce is covered. The process
  has two global generators (the \<open>random\<close> module's and numpy's) and a clock whose
  successive readings are a sequence of their own. Seeding replaces a generator by the
  one the library derives from the seed; that derivation, like SHA-256 and the calendar
  functions of \<open>datetime\<close>, comes in as a parameter.
\<close>

datatype rng = RNG (entropy: "nat \<Rightarrow> int") (pos: nat)

record world =
  py_rng :: rng
  np_rng :: rng
  clock :: "nat \<Rightarrow> int"
  ticks :: nat

record libs =
  py_seeded :: "int \<Rightarrow> nat \<Rightarrow> int"
  np_seeded :: "int \<Rightarrow> nat \<Rightarrow> int"
  sha256_hex :: "string \<Rightarrow> string"
  year_of :: "int \<Rightarrow> int"
  strftime_ym :: "int \<Rightarrow> string"

definition draw :: "rng \<Rightarrow> int \<times> rng" where
  "draw g = (entropy g (pos g), RNG (entropy g) (Suc (pos g)))"

definition randbelow :: "int \<Rightarrow> rng \<Rightarrow> int \<times> rng" where
  \<comment> \<open>a number of 0 .. n - 1, for a positive n\<close>
  "randbelow n g = (fst (draw g) mod n, snd (draw g))"

definition unit_float :: "rng \<Rightarrow> rat \<times> rng" where
  \<comment> \<open>a float of [0, 1): 53 random bits over 2^53\<close>
  "unit_float g = (of_int (fst (draw g) mod 2 ^ 53) / 2 ^ 53, snd (draw g))"

definition random_seed_py :: "libs \<Rightarrow> int \<Rightarrow> world \<Rightarrow> world" where
  \<comment> \<open>\<open>random.seed(s)\<close>\<close>
  "random_seed_py L s w = w\<lparr>py_rng := RNG (py_seeded L s) 0\<rparr>"

definition random_seed_np :: "libs \<Rightarrow> int \<Rightarrow> world \<Rightarrow> world option" where
  \<comment> \<open>\<open>np.random.seed(s)\<close>; ValueError unless the seed is between 0 and 2^32 - 1\<close>
  "random_seed_np L s w =
     (if 0 \<le> s \<and> s < 2 ^ 32 then Some (w\<lparr>np_rng := RNG (np_seeded L s) 0\<rparr>) else None)"

definition datetime_now :: "world \<Rightarrow> int \<times> world" where
  "datetime_now w = (clock w (ticks w), w\<lparr>ticks := Suc (ticks w)\<rparr>)"

definition py_random :: "world \<Rightarrow> rat \<times> world" where
  \<comment> \<open>\<open>random.random()\<close>\<close>
  "py_random w = (fst (unit_float (py_rng w)), w\<lparr>py_rng := snd (unit_float (py_rng w))\<rparr>)"

definition py_randint :: "int \<Rightarrow> int \<Rightarrow> world \<Rightarrow> (int \<times> world) option" where
  \<comment> \<open>\<open>random.randint(a, b)\<close>, both ends included; ValueError on an empty range\<close>
  "py_randint a b w =
     (if b < a then None
      else Some (a + fst (randbelow (b - a + 1) (py_rng w)),
                 w\<lparr>py_rng := snd (randbelow (b - a + 1) (py_rng w))\<rparr>))"

definition py_choice :: "'a list \<Rightarrow> world \<Rightarrow> ('a \<times> world) option" where
  \<comment> \<open>\<open>random.choice(seq)\<close>; IndexError on an empty sequence\<close>
  "py_choice xs w =
     (if xs = [] then None
      else Some (xs ! nat (fst (randbelow (int (length xs)) (py_rng w))),
                 w\<lparr>py_rng := snd (randbelow (int (length xs)) (py_rng w))\<rparr>))"

definition py_uniform :: "rat \<Rightarrow> rat \<Rightarrow> world \<Rightarrow> rat \<times> world" where
  \<comment> \<open>\<open>random.uniform(a, b)\<close> is \<open>a + (b - a) * random()\<close>\<close>
  "py_uniform a b w = (a + (b - a) * fst (py_random w), snd (py_random w))"

fun accumulate :: "rat \<Rightarrow> rat list \<Rightarrow> rat list" where
  "accumulate acc [] = []"
| "accumulate acc (x # xs) = (acc + x) # accumulate (acc + x) xs"

definition py_choices :: "'a list \<Rightarrow> rat list \<Rightarrow> world \<Rightarrow> ('a \<times> world) option" where
  \<comment> \<open>\<open>random.choices(population, weights=weights, k=1)[0]\<close>: the first position whose
      cumulative weight exceeds \<open>random() * total\<close>, at most the last position.
      IndexError on an empty population, ValueError on a length mismatch or a total
      that is not positive.\<close>
  "py_choices population weights w =
     (let cum_weights = accumulate 0 weights; n = length population in
      if n = 0 \<or> length weights \<noteq> n then None
      else if last cum_weights \<le> 0 then None
      else Some (population !
                   length (takeWhile (\<lambda>c. c \<le> fst (py_random w) * last cum_weights)
                             (take (n - 1) cum_weights)),
                 snd (py_random w)))"

fun rng_integers :: "nat \<Rightarrow> int \<Rightarrow> rng \<Rightarrow> int list \<times> rng" where
  \<comment> \<open>\<open>size\<close> draws below \<open>n\<close>\<close>
  "rng_integers 0 n g = ([], g)"
| "rng_integers (Suc sz) n g =
     (fst (randbelow n g) # fst (rng_integers sz n (snd (randbelow n g))),
      snd (rng_integers sz n (snd (randbelow n g))))"

fun rng_floats :: "nat \<Rightarrow> rng \<Rightarrow> rat list \<times> rng" where
  \<comment> \<open>\<open>size\<close> floats of [0, 1)\<close>
  "rng_floats 0 g = ([], g)"
| "rng_floats (Suc sz) g =
     (fst (unit_float g) # fst (rng_floats sz (snd (unit_float g))),
      snd (rng_floats sz (snd (unit_float g))))"

fun rng_distinct :: "nat \<Rightarrow> nat list \<Rightarrow> rng \<Rightarrow> nat list \<times> rng" where
  \<comment> \<open>\<open>size\<close> members of the pool, none taken twice\<close>
  "rng_distinct 0 pool g = ([], g)"
| "rng_distinct (Suc sz) pool g =
     (if pool = [] then ([], g)
      else (pool ! nat (fst (randbelow (int (length pool)) g)) #
              fst (rng_distinct sz (remove1 (pool ! nat (fst (randbelow (int (length pool)) g))) pool)
                     (snd (randbelow (int (length pool)) g))),
            snd (rng_distinct sz (remove1 (pool ! nat (fst (randbelow (int (length pool)) g))) pool)
                   (snd (randbelow (int (length pool)) g)))))"

definition np_randint :: "int \<Rightarrow> int \<Rightarrow> int \<Rightarrow> world \<Rightarrow> (int list \<times> world) option" where
  \<comment> \<open>\<open>np.random.randint(low, high, size=size)\<close>, \<open>high\<close> excluded; ValueError when the
      range is empty or the size negative\<close>
  "np_randint low high sz w =
     (if high \<le> low \<or> sz < 0 then None
      else Some (map (\<lambda>k. low + k) (fst (rng_integers (nat sz) (high - low) (np_rng w))),
                 w\<lparr>np_rng := snd (rng_integers (nat sz) (high - low) (np_rng w))\<rparr>))"

definition np_uniform :: "rat \<Rightarrow> rat \<Rightarrow> int \<Rightarrow> world \<Rightarrow> (rat list \<times> world) option" where
  \<comment> \<open>\<open>np.random.uniform(low, high, size=size)\<close>; ValueError on a negative size\<close>
  "np_uniform low high sz w =
     (if sz < 0 then None
      else Some (map (\<lambda>u. low + (high - low) * u) (fst (rng_floats (nat sz) (np_rng w))),
                 w\<lparr>np_rng := snd (rng_floats (nat sz) (np_rng w))\<rparr>))"

definition np_choice :: "'a list \<Rightarrow> nat \<Rightarrow> world \<Rightarrow> ('a list \<times> world) option" where
  \<comment> \<open>\<open>np.random.choice(a, size=size)\<close>, uniform with replacement; ValueError when
      \<open>a\<close> is empty and values are asked for\<close>
  "np_choice a sz w =
     (if a = [] \<and> 0 < sz then None
      else Some (map (\<lambda>k. a ! nat k) (fst (rng_integers sz (int (length a)) (np_rng w))),
                 w\<lparr>np_rng := snd (rng_integers sz (int (length a)) (np_rng w))\<rparr>))"

definition np_choice_p :: "'a list \<Rightarrow> nat \<Rightarrow> rat list \<Rightarrow> world \<Rightarrow> ('a list \<times> world) option" where
  \<comment> \<open>\<open>np.random.choice(a, size=size, p=p)\<close>: the position of each draw is the number
      of cumulative probabilities it has reached. ValueError when \<open>a\<close> is empty, the
      lengths differ, a probability is negative or they do not sum to 1.\<close>
  "np_choice_p a sz p w =
     (if a = [] \<or> length p \<noteq> length a \<or> (\<exists>x \<in> set p. x < 0) \<or> sum_list p \<noteq> 1 then None
      else Some (map (\<lambda>u. a ! length (takeWhile (\<lambda>c. c \<le> u) (take (length a - 1) (accumulate 0 p))))
                   (fst (rng_floats sz (np_rng w))),
                 w\<lparr>np_rng := snd (rng_floats sz (np_rng w))\<rparr>))"

definition np_choice_no_replace :: "nat \<Rightarrow> nat \<Rightarrow> world \<Rightarrow> (nat list \<times> world) option" where
  \<comment> \<open>\<open>np.random.choice(df.index, size=size, replace=False)\<close> over the positions
      \<open>0 ..< n\<close>; ValueError when more are asked for than there are\<close>
  "np_choice_no_replace n sz w =
     (if n < sz then None
      else Some (fst (rng_distinct sz [0..<n] (np_rng w)),
                 w\<lparr>np_rng := snd (rng_distinct sz [0..<n] (np_rng w))\<rparr>))"

definition sample_replace :: "dataframe \<Rightarrow> nat \<Rightarrow> world \<Rightarrow> (row list \<times> world) option" where
  \<comment> \<open>\<open>df.sample(n=n, replace=True)\<close>, which draws from numpy's global generator;
      ValueError on an empty frame when rows are asked for\<close>
  "sample_replace df n w =
     (if rows df = [] \<and> 0 < n then None
      else Some (map (\<lambda>k. rows df ! nat k) (fst (rng_integers n (int (length (rows df))) (np_rng w))),
                 w\<lparr>np_rng := snd (rng_integers n (int (length (rows df))) (np_rng w))\<rparr>))"

section \<open>helpers.py\<close>

record dq_config =
  inject_issues :: "bool option"
  duplicate_rate :: "rat option"
  null_rate_optional :: "rat option"
  future_date_rate :: "rat option"
  nullable_fields :: "string list"

definition get_or :: "'a option \<Rightarrow> 'a \<Rightarrow> 'a" where
  \<comment> \<open>\<open>config.get(key, default)\<close>\<close>
  "get_or v d = (case v of None \<Rightarrow> d | Some x \<Rightarrow> x)"

text \<open>Step 1 of \<open>inject_data_quality_issues\<close>: duplicates.\<close>

definition inject_duplicates :: "dataframe \<Rightarrow> dq_config \<Rightarrow> world \<Rightarrow> (dataframe \<times> world) option" where
  "inject_duplicates df config w =
     (let n_rows = length (rows df);
          dup_rate = get_or (duplicate_rate config) (1 / 200);
          n_dups = py_int (of_nat n_rows * dup_rate) in
      if 0 < n_dups then
        do { (dup_rows, w1) \<leftarrow> sample_replace df (nat n_dups) w;
             Some (df\<lparr>rows := rows df @ dup_rows\<rparr>, w1) }
      else Some (df, w))"

text \<open>Step 2: nulls, one pass per nullable column; \<open>n_rows\<close> is the length before step 1.\<close>

fun inject_nulls :: "string list \<Rightarrow> nat \<Rightarrow> rat \<Rightarrow> dataframe \<Rightarrow> world \<Rightarrow> (dataframe \<times> world) option" where
  "inject_nulls [] n_rows null_rate df w = Some (df, w)"
| "inject_nulls (col # cols) n_rows null_rate df w =
     (if col \<in> set (columns df) then
        (let n_nulls = py_int (of_nat n_rows * null_rate) in
         if 0 < n_nulls \<and> 0 < length (rows df) then
           do { (null_indices, w1) \<leftarrow>
                  np_choice_no_replace (length (rows df)) (min (nat n_nulls) (length (rows df))) w;
                inject_nulls cols n_rows null_rate (set_cells null_indices col CNone df) w1 }
         else inject_nulls cols n_rows null_rate df w)
      else inject_nulls cols n_rows null_rate df w)"

text \<open>Step 3: future dates, one pass per date column.\<close>

fun inject_future :: "string list \<Rightarrow> nat \<Rightarrow> dataframe \<Rightarrow> world \<Rightarrow> (dataframe \<times> world) option" where
  "inject_future [] n_future df w = Some (df, w)"
| "inject_future (col # cols) n_future df w =
     (if col \<in> set (columns df) \<and> 0 < length (rows df) then
        do { (future_indices, w1) \<leftarrow>
               np_choice_no_replace (length (rows df)) (min n_future (length (rows df))) w;
             (t, w2) \<leftarrow> Some (datetime_now w1);
             (d, w3) \<leftarrow> py_randint 1 30 w2;
             inject_future cols n_future (set_cells future_indices col (CTs (t + days d)) df) w3 }
      else inject_future cols n_future df w)"

definition inject_data_quality_issues ::
  "dataframe \<Rightarrow> dq_config \<Rightarrow> string list \<Rightarrow> string list \<Rightarrow> world \<Rightarrow> (dataframe \<times> world) option" where
  \<comment> \<open>an absent (\<open>None\<close>) column list and an empty one are both falsy: both are \<open>[]\<close>\<close>
  "inject_data_quality_issues df config date_columns nullable_columns w =
     (if \<not> get_or (inject_issues config) False then Some (df, w)
      else
        do { let n_rows = length (rows df);
             (df1, w1) \<leftarrow> inject_duplicates df config w;
             (df2, w2) \<leftarrow>
               (if nullable_columns \<noteq> [] then
                  inject_nulls nullable_columns n_rows (get_or (null_rate_optional config) (1 / 50)) df1 w1
                else Some (df1, w1));
             (if date_columns \<noteq> [] then
                (let n_future = py_int (of_nat n_rows * get_or (future_date_rate config) (1 / 1000)) in
                 if 0 < n_future then inject_future date_columns (nat n_future) df2 w2
                 else Some (df2, w2))
              else Some (df2, w2)) })"

text \<open>
  String formatting: \<open>str.split\<close>, and \<open>str(n)\<close> and \<open>f"{n:0wd}"\<close> for the numbers
  that are formatted here, none of which is negative.
\<close>

fun split_on :: "char \<Rightarrow> string \<Rightarrow> string list" where
  "split_on c [] = [[]]"
| "split_on c (x # xs) =
     (if x = c then [] # split_on c xs
      else (case split_on c xs of [] \<Rightarrow> [[x]] | p # ps \<Rightarrow> (x # p) # ps))"

definition id_part :: "cell \<Rightarrow> nat \<Rightarrow> string option" where
  \<comment> \<open>\<open>value.split('-')[k]\<close>: AttributeError unless the value is a string, IndexError
      when there are too few parts\<close>
  "id_part v k =
     (case v of
        CStr s \<Rightarrow> (if k < length (split_on CHR ''-'' s) then Some (split_on CHR ''-'' s ! k) else None)
      | _ \<Rightarrow> None)"

function dec :: "int \<Rightarrow> string" where
  "dec n = (if n < 10 then [''0123456789'' ! nat n]
            else dec (n div 10) @ [''0123456789'' ! nat (n mod 10)])"
  by pat_completeness auto
termination
  by (relation "measure nat") auto

declare dec.simps [simp del]

definition fmt_d :: "nat \<Rightarrow> int \<Rightarrow> string" where
  "fmt_d width n = replicate (width - length (dec n)) CHR ''0'' @ dec n"

definition timestamp_add :: "cell \<Rightarrow> int \<Rightarrow> cell option" where
  \<comment> \<open>\<open>ts + timedelta(microseconds=d)\<close>: \<open>NaT\<close> stays \<open>NaT\<close>, a \<open>date\<close> takes the whole
      days of the delta, anything else is a TypeError\<close>
  "timestamp_add v d =
     (case v of
        CTs t \<Rightarrow> Some (CTs (t + d))
      | CDate t \<Rightarrow> Some (CDate (t + d div 86400000000))
      | CNone \<Rightarrow> Some CNone
      | _ \<Rightarrow> None)"

definition format_month_partition :: "libs \<Rightarrow> cell \<Rightarrow> string option" where
  \<comment> \<open>\<open>date.strftime('%Y-%m')\<close>; \<open>None\<close>, \<open>NaT\<close> and values without \<open>strftime\<close> raise\<close>
  "format_month_partition L v =
     (case v of
        CTs t \<Rightarrow> Some (strftime_ym L t)
      | CDate t \<Rightarrow> Some (strftime_ym L (days t))
      | _ \<Rightarrow> None)"

section \<open>The configuration\<close>

text \<open>
  The YAML file is not part of the sources; the record has the entries the generators
  read, with the active scale already selected and its ISO dates already parsed.
  A weighted dimension is the list of its items, each paired with its \<open>weight\<close>: a
  name, or for products and payers a dict of their other entries.
\<close>

record config =
  random_seed :: "int option"
  enrollments :: int
  start_date :: int
  end_date :: int
  years_of_data :: rat
  claims_per_patient_year :: rat
  shipments_per_shipped_patient :: rat
  first_shipment :: rat
  refill_cadence :: "(int \<times> rat) list"
  channels :: "(string \<times> rat) list"
  hub_vendors :: "(string \<times> rat) list"
  program_types :: "(string \<times> rat) list"
  products :: "(row \<times> rat) list"
  payers :: "(row \<times> rat) list"
  plan_types :: "(string \<times> rat) list"
  prescriber_specialties :: "(string \<times> rat) list"
  data_quality :: dq_config

section \<open>cases.py\<close>

text \<open>The body of the loop of \<open>generate_cases\<close>: the case of one enrollment row.\<close>

definition case_of_enrollment :: "libs \<Rightarrow> row \<Rightarrow> world \<Rightarrow> (row \<times> world) option" where
  "case_of_enrollment L enrollment w =
     do { enrolled_ts \<leftarrow> getitem enrollment ''enrolled_ts'';
          (h, w1) \<leftarrow> py_randint (- 12) 12 w;
          case_opened_ts \<leftarrow> timestamp_add enrolled_ts (hours h);
          (current_status, w2) \<leftarrow>
            py_choices [''ACTIVE'', ''CLOSED'', ''ON_HOLD''] [3 / 5, 7 / 20, 1 / 20] w1;
          (closed_ts, closure_reason, w3) \<leftarrow>
            (if current_status = ''CLOSED'' then
               do { (days_to_close, w21) \<leftarrow> py_randint 30 180 w2;
                    closed_ts \<leftarrow> timestamp_add case_opened_ts (days days_to_close);
                    (closure_reason, w22) \<leftarrow>
                      py_choices [''COMPLETED_THERAPY'', ''ABANDONED'', ''LOST_TO_FOLLOWUP'',
                                  ''PATIENT_DECLINED'', ''TRANSFERRED'']
                                 [1 / 2, 1 / 4, 3 / 20, 7 / 100, 3 / 100] w21;
                    Some (closed_ts, CStr closure_reason, w22) }
             else Some (CNone, CNone, w2));
          (case_manager, w4) \<leftarrow> py_randint 1 20 w3;
          enrollment_id \<leftarrow> getitem enrollment ''enrollment_id'';
          part1 \<leftarrow> id_part enrollment_id 1;
          part2 \<leftarrow> id_part enrollment_id 2;
          patient_id_hash \<leftarrow> getitem enrollment ''patient_id_hash'';
          opened_month \<leftarrow> format_month_partition L case_opened_ts;
          (created_at, w5) \<leftarrow> Some (datetime_now w4);
          Some ([(''case_id'', CStr (''CASE-'' @ part1 @ ''-'' @ part2)),
                 (''enrollment_id'', enrollment_id),
                 (''patient_id_hash'', patient_id_hash),
                 (''case_opened_ts'', case_opened_ts),
                 (''opened_month'', CStr opened_month),
                 (''case_manager_id'', CStr (''CM-'' @ fmt_d 3 case_manager)),
                 (''current_status'', CStr current_status),
                 (''closed_ts'', closed_ts),
                 (''closure_reason'', closure_reason),
                 (''created_at'', CTs created_at)], w5) }"

fun cases_loop :: "libs \<Rightarrow> row list \<Rightarrow> world \<Rightarrow> (row list \<times> world) option" where
  "cases_loop L [] w = Some ([], w)"
| "cases_loop L (enrollment # rest) w =
     do { (c, w1) \<leftarrow> case_of_enrollment L enrollment w;
          (cs, w2) \<leftarrow> cases_loop L rest w1;
          Some (c # cs, w2) }"

definition generate_cases :: "libs \<Rightarrow> dataframe \<Rightarrow> config \<Rightarrow> world \<Rightarrow> (dataframe \<times> world) option" where
  "generate_cases L enrollments_df cfg w =
     do { let (start_time, w0) = datetime_now w;
          let seed = get_or (random_seed cfg) 42;
          w1 \<leftarrow> random_seed_np L seed (random_seed_py L seed w0);
          (cases, w2) \<leftarrow> cases_loop L (rows enrollments_df) w1;
          inject_data_quality_issues (from_records cases) (data_quality cfg)
            [''case_opened_ts'', ''closed_ts''] [''closed_ts'', ''closure_reason''] w2 }"

section \<open>status\_history.py\<close>

definition successful :: "string list" where
  "successful = [''INQUIRY'', ''ENROLLED'', ''BV_PENDING'', ''BV_COMPLETE'', ''PA_PENDING'',
                 ''PA_APPROVED'', ''SHIPPED'', ''ACTIVE'']"

definition abandoned_at_bv :: "string list" where
  "abandoned_at_bv = [''INQUIRY'', ''ENROLLED'', ''BV_PENDING'', ''ABANDONED'']"

definition abandoned_at_pa :: "string list" where
  "abandoned_at_pa = [''INQUIRY'', ''ENROLLED'', ''BV_PENDING'', ''BV_COMPLETE'', ''PA_PENDING'',
                      ''PA_DENIED'', ''ABANDONED'']"

definition abandoned_early :: "string list" where
  "abandoned_early = [''INQUIRY'', ''ENROLLED'', ''ABANDONED'']"

definition status_paths :: "string \<Rightarrow> string list option" where
  "status_paths key =
     map_of [(''successful'', successful), (''abandoned_at_bv'', abandoned_at_bv),
             (''abandoned_at_pa'', abandoned_at_pa), (''abandoned_early'', abandoned_early)] key"


text \<open>The choice of the path of one case, the first block of the loop.\<close>

definition choose_path :: "row \<Rightarrow> world \<Rightarrow> (string list \<times> world) option" where
  "choose_path case_row w =
     do { current_status \<leftarrow> getitem case_row ''current_status'';
          if current_status = CStr ''ACTIVE'' then Some (successful, w)
          else if current_status = CStr ''CLOSED'' then
            do { closure_reason \<leftarrow> getitem case_row ''closure_reason'';
                 if closure_reason = CStr ''COMPLETED_THERAPY'' then Some (successful @ [''CLOSED''], w)
                 else do { (path_choice, w1) \<leftarrow>
                             py_choice [''abandoned_early'', ''abandoned_at_bv'', ''abandoned_at_pa''] w;
                           path \<leftarrow> status_paths path_choice;
                           Some (path, w1) } }
          else do { (n, w1) \<leftarrow> py_randint 3 6 w;
                    Some (take (nat n) successful, w1) } }"







section \<open>More of the library\<close>

definition py_round :: "rat \<Rightarrow> int" where
  \<comment> \<open>\<open>round(x)\<close>: to the nearest integer, a tie to the even one\<close>
  "py_round x =
     (let f = \<lfloor>x\<rfloor>; r = x - of_int f in
      if r < 1 / 2 then f else if 1 / 2 < r then f + 1 else if even f then f else f + 1)"

definition weighted_choice :: "'a list \<Rightarrow> rat list \<Rightarrow> world \<Rightarrow> ('a \<times> world) option" where
  \<comment> \<open>\<open>helpers.weighted_choice\<close>\<close>
  "weighted_choice choices weights w = py_choices choices weights w"

definition date_of :: "cell \<Rightarrow> cell option" where
  \<comment> \<open>\<open>ts.date()\<close> of a datetime; a \<open>date\<close> has no such method, and the \<open>NaT\<close> it
      returns for \<open>NaT\<close> fails in the \<open>strftime\<close> that follows every use\<close>
  "date_of v = (case v of CTs t \<Rightarrow> Some (CDate (t div 86400000000)) | _ \<Rightarrow> None)"

definition to_datetime :: "cell \<Rightarrow> cell option" where
  \<comment> \<open>\<open>pd.to_datetime\<close> on one value of a column of dates, datetimes and nulls (the
      only values the column can hold here; anything else is taken as an error)\<close>
  "to_datetime v =
     (case v of CTs t \<Rightarrow> Some (CTs t) | CDate d \<Rightarrow> Some (CTs (days d)) | CNone \<Rightarrow> Some CNone
      | _ \<Rightarrow> None)"

definition sample_frac :: "libs \<Rightarrow> dataframe \<Rightarrow> rat \<Rightarrow> int \<Rightarrow> row list option" where
  \<comment> \<open>\<open>df.sample(frac=frac, random_state=seed)\<close>: \<open>round(frac * len(df))\<close> distinct
      rows, drawn from a generator of its own seeded with \<open>seed\<close>. ValueError on a
      fraction below 0 or above 1 and on a seed outside 0 .. 2^32 - 1.\<close>
  "sample_frac L df fraction seed =
     (if fraction < 0 \<or> 1 < fraction \<or> seed < 0 \<or> 2 ^ 32 \<le> seed then None
      else Some (map (\<lambda>k. rows df ! k)
                  (fst (rng_distinct (nat (py_round (of_nat (length (rows df)) * fraction)))
                          [0..<length (rows df)] (RNG (np_seeded L seed) 0)))))"

section \<open>shipments.py\<close>

text \<open>
  One pass of the refill loop: the shipment numbered \<open>shipment_counter\<close>, refill
  \<open>refill_num\<close>, shipped on \<open>current_ship_date\<close>; with it the next ship date.
\<close>

definition shipment_record ::
  "libs \<Rightarrow> config \<Rightarrow> row \<Rightarrow> cell \<Rightarrow> cell \<Rightarrow> nat \<Rightarrow> nat \<Rightarrow> cell \<Rightarrow> world \<Rightarrow> (row \<times> cell \<times> world) option" where
  "shipment_record L cfg enrollment product_ndc product_name refill_num shipment_counter
                   current_ship_date w =
     do { (days_supply, w1) \<leftarrow>
            weighted_choice (map fst (refill_cadence cfg)) (map snd (refill_cadence cfg)) w;
          (d, w2) \<leftarrow> py_randint 0 2 w1;
          fill_date \<leftarrow> timestamp_add current_ship_date (- days d);
          let quantity = (if days_supply = 90 then 3 else 1);
          (claim_status, w3) \<leftarrow>
            weighted_choice [''PAID'', ''DENIED'', ''REVERSED''] [9 / 10, 2 / 25, 1 / 50] w2;
          (copay, w4) \<leftarrow>
            (if claim_status = ''PAID'' then
               do { plan_type \<leftarrow> getitem enrollment ''plan_type'';
                    if plan_type = CStr ''COMMERCIAL'' then py_choice [0, 10, 25, 50, 100, 150] w3
                    else if plan_type = CStr ''MEDICARE'' then py_choice [0, 5, 15, 30, 75] w3
                    else Some (0, w3) }
             else Some (0, w3));
          (pharmacy, w5) \<leftarrow> py_randint 1 50 w4;
          enrollment_id \<leftarrow> getitem enrollment ''enrollment_id'';
          patient_id_hash \<leftarrow> getitem enrollment ''patient_id_hash'';
          part2 \<leftarrow> id_part enrollment_id 2;
          fill_day \<leftarrow> date_of fill_date;
          ship_day \<leftarrow> date_of current_ship_date;
          shipment_month \<leftarrow> format_month_partition L current_ship_date;
          (created_at, w6) \<leftarrow> Some (datetime_now w5);
          (refill_variance, w7) \<leftarrow> py_randint (- 3) 5 w6;
          next_ship_date \<leftarrow> timestamp_add current_ship_date (days (days_supply + refill_variance));
          Some ([(''shipment_id'', CStr (''SHIP-'' @ fmt_d 8 (int shipment_counter))),
                 (''enrollment_id'', enrollment_id),
                 (''patient_id_hash'', patient_id_hash),
                 (''prescription_id'', CStr (''RX-'' @ part2 @ ''-'' @ fmt_d 3 (int refill_num))),
                 (''fill_date'', fill_day),
                 (''ship_date'', ship_day),
                 (''shipment_month'', CStr shipment_month),
                 (''ndc_code'', product_ndc),
                 (''product_name'', product_name),
                 (''days_supply'', CInt days_supply),
                 (''quantity'', CNum quantity),
                 (''refill_number'', CInt (int refill_num)),
                 (''pharmacy_id'', CStr (''PHARM-'' @ fmt_d 3 pharmacy)),
                 (''claim_status'', CStr claim_status),
                 (''copay_amount'', CInt copay),
                 (''created_at'', CTs created_at)],
                next_ship_date, w7) }"

definition later_than :: "cell \<Rightarrow> int \<Rightarrow> bool option" where
  \<comment> \<open>\<open>current_ship_date > end_date\<close>\<close>
  "later_than v e = (case v of CTs t \<Rightarrow> Some (e < t) | _ \<Rightarrow> None)"

text \<open>
  \<open>for refill_num in range(n_shipments)\<close> with its \<open>break\<close>: the first argument
  counts the passes that are left.
\<close>

fun refill_loop ::
  "nat \<Rightarrow> libs \<Rightarrow> config \<Rightarrow> row \<Rightarrow> cell \<Rightarrow> cell \<Rightarrow> nat \<Rightarrow> nat \<Rightarrow> cell \<Rightarrow> world
     \<Rightarrow> (row list \<times> nat \<times> world) option" where
  "refill_loop 0 L cfg enrollment product_ndc product_name refill_num shipment_counter
               current_ship_date w = Some ([], shipment_counter, w)"
| "refill_loop (Suc left) L cfg enrollment product_ndc product_name refill_num shipment_counter
               current_ship_date w =
     do { (shipment, next_ship_date, w1) \<leftarrow>
            shipment_record L cfg enrollment product_ndc product_name refill_num
              (shipment_counter + 1) current_ship_date w;
          past_end \<leftarrow> later_than next_ship_date (end_date cfg);
          if past_end then Some ([shipment], shipment_counter + 1, w1)
          else do { (more_shipments, n, w2) \<leftarrow>
                      refill_loop left L cfg enrollment product_ndc product_name (refill_num + 1)
                        (shipment_counter + 1) next_ship_date w1;
                    Some (shipment # more_shipments, n, w2) } }"

definition patient_shipments ::
  "libs \<Rightarrow> config \<Rightarrow> row \<Rightarrow> nat \<Rightarrow> world \<Rightarrow> (row list \<times> nat \<times> world) option" where
  "patient_shipments L cfg enrollment shipment_counter w =
     do { let (u, w1) = py_uniform (7 / 10) (13 / 10) w;
          let n_shipments = max 1 (py_int (shipments_per_shipped_patient cfg * u));
          enrolled_ts \<leftarrow> getitem enrollment ''enrolled_ts'';
          (d, w2) \<leftarrow> py_randint 5 15 w1;
          first_ship_date \<leftarrow> timestamp_add enrolled_ts (days d);
          product_ndc \<leftarrow> getitem enrollment ''ndc_code'';
          product_name \<leftarrow> getitem enrollment ''program_name'';
          refill_loop (nat n_shipments) L cfg enrollment product_ndc product_name 0 shipment_counter
            first_ship_date w2 }"

fun shipments_loop ::
  "libs \<Rightarrow> config \<Rightarrow> row list \<Rightarrow> nat \<Rightarrow> world \<Rightarrow> (row list \<times> nat \<times> world) option" where
  "shipments_loop L cfg [] shipment_counter w = Some ([], shipment_counter, w)"
| "shipments_loop L cfg (enrollment # rest) shipment_counter w =
     do { (ss, n1, w1) \<leftarrow> patient_shipments L cfg enrollment shipment_counter w;
          (sss, n2, w2) \<leftarrow> shipments_loop L cfg rest n1 w1;
          Some (ss @ sss, n2, w2) }"

definition generate_shipments :: "libs \<Rightarrow> dataframe \<Rightarrow> config \<Rightarrow> world \<Rightarrow> (dataframe \<times> world) option" where
  "generate_shipments L enrollments_df cfg w =
     do { let (start_time, w0) = datetime_now w;
          let seed = get_or (random_seed cfg) 42;
          w1 \<leftarrow> random_seed_np L seed (random_seed_py L seed w0);
          shipped_enrollments \<leftarrow> sample_frac L enrollments_df (first_shipment cfg) seed;
          (shipments, n, w2) \<leftarrow> shipments_loop L cfg shipped_enrollments 0 w1;
          inject_data_quality_issues (from_records shipments) (data_quality cfg)
            [''fill_date'', ''ship_date''] [''copay_amount''] w2 }"

section \<open>claims.py\<close>

text \<open>Column operations of pandas on the rows of a frame.\<close>

definition cell_at :: "row \<Rightarrow> string \<Rightarrow> cell" where
  \<comment> \<open>the value of a column in a row of a frame: a missing value reads as null\<close>
  "cell_at r col = (case map_of r col of None \<Rightarrow> CNone | Some v \<Rightarrow> v)"

definition with_column :: "string \<Rightarrow> cell list \<Rightarrow> row list \<Rightarrow> row list" where
  \<comment> \<open>\<open>df[col] = values\<close>, one value per row\<close>
  "with_column col vals rs = map (\<lambda>(v, r). put col v r) (zip vals rs)"

definition set_where :: "(row \<Rightarrow> bool) \<Rightarrow> string \<Rightarrow> cell \<Rightarrow> row list \<Rightarrow> row list" where
  \<comment> \<open>\<open>df.loc[mask, col] = v\<close>\<close>
  "set_where msk col v rs = map (\<lambda>r. if msk r then put col v r else r) rs"

fun assign_where :: "(row \<Rightarrow> bool) \<Rightarrow> string \<Rightarrow> cell list \<Rightarrow> row list \<Rightarrow> row list" where
  \<comment> \<open>\<open>df.loc[mask, col] = values\<close>, one value per row of the mask, in order\<close>
  "assign_where msk col vals [] = []"
| "assign_where msk col vals (r # rs) =
     (if msk r then
        (case vals of [] \<Rightarrow> r # assign_where msk col [] rs
         | v # vs \<Rightarrow> put col v r # assign_where msk col vs rs)
      else r # assign_where msk col vals rs)"

definition select_columns :: "string list \<Rightarrow> row \<Rightarrow> row" where
  \<comment> \<open>\<open>df[[cols]]\<close> on one row\<close>
  "select_columns cols r = map (\<lambda>c. (c, cell_at r c)) cols"

fun to_datetime_column :: "string \<Rightarrow> row list \<Rightarrow> row list option" where
  \<comment> \<open>\<open>df[col] = pd.to_datetime(df[col])\<close>\<close>
  "to_datetime_column col [] = Some []"
| "to_datetime_column col (r # rs) =
     do { v \<leftarrow> to_datetime (cell_at r col);
          rs' \<leftarrow> to_datetime_column col rs;
          Some (put col v r # rs') }"

definition round2 :: "cell \<Rightarrow> cell" where
  \<comment> \<open>\<open>.round(2)\<close> on a float\<close>
  "round2 v = (case v of CNum x \<Rightarrow> CNum (of_int (py_round (x * 100)) / 100) | _ \<Rightarrow> v)"

text \<open>
  \<open>groupby('enrollment_id')['ship_date'].agg(min, max)\<close> joined back on the key: the
  earliest and the latest ship date among the shipments of one enrollment id. Null
  dates are skipped, a null key has no group.
\<close>

definition ship_times :: "row list \<Rightarrow> cell \<Rightarrow> int list" where
  "ship_times shipment_ranges key =
     concat (map (\<lambda>r. case cell_at r ''ship_date'' of CTs t \<Rightarrow> [t] | _ \<Rightarrow> [])
               (filter (\<lambda>r. cell_at r ''enrollment_id'' = key) shipment_ranges))"

definition patient_date_range :: "row list \<Rightarrow> cell \<Rightarrow> cell \<times> cell" where
  "patient_date_range shipment_ranges key =
     (if key = CNone \<or> ship_times shipment_ranges key = [] then (CNone, CNone)
      else (CTs (Min (set (ship_times shipment_ranges key))),
            CTs (Max (set (ship_times shipment_ranges key)))))"

text \<open>The claims of one patient, as the loop appends them to its arrays.\<close>

definition patient_claims :: "row \<Rightarrow> int \<Rightarrow> world \<Rightarrow> (row list \<times> world) option" where
  "patient_claims patient n_claims w =
     do { first_ship \<leftarrow> getitem patient ''first_ship'';
          last_ship \<leftarrow> getitem patient ''last_ship'';
          start_range \<leftarrow> timestamp_add first_ship (- days 30);
          end_range \<leftarrow> timestamp_add last_ship (days 30);
          (s, e) \<leftarrow> (case (start_range, end_range) of (CTs s, CTs e) \<Rightarrow> Some (s, e) | _ \<Rightarrow> None);
          let date_range_seconds = of_int (e - s) / 1000000;
          (random_offsets, w1) \<leftarrow> np_uniform 0 date_range_seconds n_claims w;
          let patient_claim_dates = map (\<lambda>offset. CTs (s + py_round (offset * 1000000))) random_offsets;
          enrollment_id \<leftarrow> getitem patient ''enrollment_id'';
          patient_id_hash \<leftarrow> getitem patient ''patient_id_hash'';
          ndc_code \<leftarrow> getitem patient ''ndc_code'';
          payer \<leftarrow> getitem patient ''payer_id'';
          prescriber_npi \<leftarrow> getitem patient ''prescriber_npi'';
          Some (map (\<lambda>claim_date.
                       [(''enrollment_id'', enrollment_id),
                        (''patient_id_hash'', patient_id_hash),
                        (''claim_date_raw'', claim_date),
                        (''ndc_code'', ndc_code),
                        (''payer_id'', payer),
                        (''provider_npi'', prescriber_npi)]) patient_claim_dates, w1) }"

fun claims_loop :: "row list \<Rightarrow> int list \<Rightarrow> world \<Rightarrow> (row list \<times> world) option" where
  "claims_loop [] claims_per_patient w = Some ([], w)"
| "claims_loop (patient # rest) claims_per_patient w =
     (case claims_per_patient of
        [] \<Rightarrow> None
      | n_claims # ns \<Rightarrow>
          do { (cs, w1) \<leftarrow> patient_claims patient n_claims w;
               (css, w2) \<leftarrow> claims_loop rest ns w1;
               Some (cs @ css, w2) })"

definition claim_dates :: "libs \<Rightarrow> row \<Rightarrow> row option" where
  \<comment> \<open>the \<open>claim_date\<close> and \<open>claim_month\<close> of a row from its \<open>claim_date_raw\<close>\<close>
  "claim_dates L r =
     do { claim_date \<leftarrow> date_of (cell_at r ''claim_date_raw'');
          claim_month \<leftarrow> format_month_partition L (cell_at r ''claim_date_raw'');
          Some (put ''claim_month'' (CStr claim_month) (put ''claim_date'' claim_date r)) }"

definition claim_columns :: "string list" where
  "claim_columns = [''claim_id'', ''enrollment_id'', ''patient_id_hash'', ''claim_date'',
                    ''claim_month'', ''claim_type'', ''procedure_code'', ''ndc_code'',
                    ''payer_id'', ''provider_npi'', ''claim_status'',
                    ''paid_amount'', ''patient_paid'', ''created_at'']"

text \<open>
  The first block of \<open>generate_claims\<close>: the enrollment rows whose id has a shipment,
  each with the first and last ship date of its id.
\<close>

definition shipped_patients_of :: "dataframe \<Rightarrow> dataframe \<Rightarrow> row list option" where
  "shipped_patients_of enrollments_df shipments_df =
     do { _ \<leftarrow> (if ''enrollment_id'' \<in> set (columns enrollments_df)
                     \<and> ''enrollment_id'' \<in> set (columns shipments_df)
                     \<and> ''ship_date'' \<in> set (columns shipments_df) then Some () else None);
          let shipped_patients =
                filter (\<lambda>e. cell_at e ''enrollment_id''
                               \<in> set (map (\<lambda>s. cell_at s ''enrollment_id'') (rows shipments_df)))
                  (rows enrollments_df);
          shipment_ranges \<leftarrow> to_datetime_column ''ship_date'' (rows shipments_df);
          _ \<leftarrow> (if shipped_patients \<noteq> []
                     \<and> (''first_ship'' \<in> set (columns enrollments_df)
                          \<or> ''last_ship'' \<in> set (columns enrollments_df)) then None else Some ());
          Some (map (\<lambda>e. put ''last_ship''
                          (snd (patient_date_range shipment_ranges (cell_at e ''enrollment_id'')))
                          (put ''first_ship''
                             (fst (patient_date_range shipment_ranges (cell_at e ''enrollment_id''))) e))
                  shipped_patients) }"

text \<open>The second block: the number of claims of each patient, the loop, and the frame built from its arrays.\<close>

definition claim_rows :: "config \<Rightarrow> row list \<Rightarrow> world \<Rightarrow> (row list \<times> world) option" where
  "claim_rows cfg shipped_patients w =
     do { let base_claims = py_int (claims_per_patient_year cfg * years_of_data cfg);
          let n_patients = length shipped_patients;
          (claims_per_patient, w1) \<leftarrow>
            np_randint (py_int (of_int base_claims * (7 / 10)))
                       (py_int (of_int base_claims * (13 / 10)) + 1) (int n_patients) w;
          (claims, w2) \<leftarrow> claims_loop shipped_patients claims_per_patient w1;
          Some (map (\<lambda>(i, r). (''claim_id'', CStr (''CLM-'' @ fmt_d 8 (int i + 1))) # r)
                  (zip [0..<length claims] claims), w2) }"

text \<open>The third block: the columns drawn for all rows at once.\<close>

definition medical :: "row \<Rightarrow> bool" where
  "medical r \<longleftrightarrow> cell_at r ''claim_type'' = CStr ''MEDICAL''"

definition paid_pharmacy :: "row \<Rightarrow> bool" where
  "paid_pharmacy r \<longleftrightarrow>
     cell_at r ''claim_status'' = CStr ''PAID'' \<and> cell_at r ''claim_type'' = CStr ''PHARMACY''"

definition paid_medical :: "row \<Rightarrow> bool" where
  "paid_medical r \<longleftrightarrow>
     cell_at r ''claim_status'' = CStr ''PAID'' \<and> cell_at r ''claim_type'' = CStr ''MEDICAL''"

definition claim_types :: "row list \<Rightarrow> world \<Rightarrow> (row list \<times> world) option" where
  "claim_types df w =
     do { (claim_type, w1) \<leftarrow> np_choice_p [''PHARMACY'', ''MEDICAL''] (length df) [3 / 5, 2 / 5] w;
          let df1 = with_column ''claim_type'' (map CStr claim_type) df;
          (codes, w2) \<leftarrow> np_choice [''99213'', ''99214'', ''96372'', ''J1234''] (length df1) w1;
          let df2 = with_column ''procedure_code''
                      (map (\<lambda>(r, code). if medical r then CStr code else CNone) (zip df1 codes)) df1;
          let df3 = set_where medical ''ndc_code'' CNone df2;
          (claim_status, w3) \<leftarrow>
            np_choice_p [''PAID'', ''DENIED'', ''PENDING''] (length df3) [17 / 20, 1 / 10, 1 / 20] w2;
          Some (with_column ''claim_status'' (map CStr claim_status) df3, w3) }"

definition claim_amounts :: "row list \<Rightarrow> world \<Rightarrow> (row list \<times> world) option" where
  "claim_amounts df w =
     do { let df0 = map (put ''patient_paid'' (CNum 0)) (map (put ''paid_amount'' (CNum 0)) df);
          (a1, w1) \<leftarrow> np_uniform 5000 15000 (int (length (filter paid_pharmacy df0))) w;
          let df1 = assign_where paid_pharmacy ''paid_amount'' (map CNum a1) df0;
          (a2, w2) \<leftarrow> np_uniform 0 500 (int (length (filter paid_pharmacy df1))) w1;
          let df2 = assign_where paid_pharmacy ''patient_paid'' (map CNum a2) df1;
          (a3, w3) \<leftarrow> np_uniform 100 500 (int (length (filter paid_medical df2))) w2;
          let df3 = assign_where paid_medical ''paid_amount'' (map CNum a3) df2;
          (a4, w4) \<leftarrow> np_uniform 0 50 (int (length (filter paid_medical df3))) w3;
          let df4 = assign_where paid_medical ''patient_paid'' (map CNum a4) df3;
          let df5 = map (\<lambda>r. put ''patient_paid'' (round2 (cell_at r ''patient_paid''))
                                (put ''paid_amount'' (round2 (cell_at r ''paid_amount'')) r)) df4;
          let df6 = set_where (\<lambda>r. cell_at r ''paid_amount'' = CNum 0) ''paid_amount'' CNone df5;
          Some (set_where (\<lambda>r. cell_at r ''patient_paid'' = CNum 0) ''patient_paid'' CNone df6, w4) }"

text \<open>\<open>generate_claims\<close> up to the frame it hands to the injector, and all of it.\<close>

definition claims_frame ::
  "libs \<Rightarrow> dataframe \<Rightarrow> dataframe \<Rightarrow> config \<Rightarrow> world \<Rightarrow> (dataframe \<times> world) option" where
  "claims_frame L enrollments_df shipments_df cfg w =
     do { let (start_time, w0) = datetime_now w;
          w1 \<leftarrow> random_seed_np L (get_or (random_seed cfg) 42) w0;
          shipped_patients \<leftarrow> shipped_patients_of enrollments_df shipments_df;
          (df, w2) \<leftarrow> claim_rows cfg shipped_patients w1;
          (df, w3) \<leftarrow> claim_types df w2;
          (df, w4) \<leftarrow> claim_amounts df w3;
          df \<leftarrow> those (map (claim_dates L) df);
          let (created_at, w5) = datetime_now w4;
          let df = map (put ''created_at'' (CTs created_at)) df;
          Some (\<lparr>columns = claim_columns, rows = map (select_columns claim_columns) df\<rparr>, w5) }"

definition generate_claims ::
  "libs \<Rightarrow> dataframe \<Rightarrow> dataframe \<Rightarrow> config \<Rightarrow> world \<Rightarrow> (dataframe \<times> world) option" where
  "generate_claims L enrollments_df shipments_df cfg w =
     do { (df, w1) \<leftarrow> claims_frame L enrollments_df shipments_df cfg w;
          inject_data_quality_issues df (data_quality cfg) [''claim_date'']
            [''procedure_code'', ''ndc_code'', ''paid_amount'', ''patient_paid''] w1 }"

section \<open>enrollments.py\<close>

definition hash_patient_id :: "libs \<Rightarrow> nat \<Rightarrow> string" where
  "hash_patient_id L patient_number = take 16 (sha256_hex L (''patient_'' @ fmt_d 8 (int patient_number)))"

definition generate_npi :: "world \<Rightarrow> (string \<times> world) option" where
  "generate_npi w = do { (n, w1) \<leftarrow> py_randint 1000000000 9999999999 w; Some (dec n, w1) }"

definition random_date_between :: "int \<Rightarrow> int \<Rightarrow> world \<Rightarrow> (int \<times> world) option" where
  "random_date_between start_ts end_ts w =
     do { (random_days, w1) \<leftarrow> py_randint 0 ((end_ts - start_ts) div 86400000000) w;
          (random_seconds, w2) \<leftarrow> py_randint 0 86400 w1;
          Some (start_ts + days random_days + seconds random_seconds, w2) }"

definition generate_us_states_weighted :: "world \<Rightarrow> (string \<times> world) option" where
  "generate_us_states_weighted w =
     (let top_states = [''CA'', ''TX'', ''FL'', ''NY'', ''PA'', ''IL'', ''OH'', ''GA'', ''NC'', ''MI''];
          top_weights = [3 / 20, 3 / 25, 1 / 10, 2 / 25, 3 / 50, 1 / 20, 1 / 20, 1 / 25, 1 / 25, 1 / 25];
          remaining_states =
            [''NJ'', ''VA'', ''WA'', ''AZ'', ''MA'', ''TN'', ''IN'', ''MO'', ''MD'', ''WI'',
             ''CO'', ''MN'', ''SC'', ''AL'', ''LA'', ''KY'', ''OR'', ''OK'', ''CT'', ''UT'',
             ''IA'', ''NV'', ''AR'', ''MS'', ''KS'', ''NM'', ''NE'', ''WV'', ''ID'', ''HI'',
             ''NH'', ''ME'', ''MT'', ''RI'', ''DE'', ''SD'', ''ND'', ''AK'', ''VT'', ''WY''];
          remaining_weight = 27 / 100;
          remaining_weights =
            replicate (length remaining_states) (remaining_weight / of_nat (length remaining_states))
      in weighted_choice (top_states @ remaining_states) (top_weights @ remaining_weights) w)"

text \<open>The body of the loop of \<open>generate_enrollments\<close>: enrollment number \<open>i\<close>.\<close>

definition enrollment_record :: "libs \<Rightarrow> config \<Rightarrow> nat \<Rightarrow> world \<Rightarrow> (row \<times> world) option" where
  "enrollment_record L cfg i w =
     do { (product, w1) \<leftarrow> weighted_choice (map fst (products cfg)) (map snd (products cfg)) w;
          (program_type, w2) \<leftarrow>
            weighted_choice (map fst (program_types cfg)) (map snd (program_types cfg)) w1;
          (enrolled_ts, w3) \<leftarrow> random_date_between (start_date cfg) (end_date cfg) w2;
          (inquiry_days_before, w4) \<leftarrow> py_randint 0 14 w3;
          let (u, w5) = py_random w4;
          let inquiry_ts = (if 1 / 10 < u then CTs (enrolled_ts - days inquiry_days_before) else CNone);
          (plan_type, w6) \<leftarrow>
            weighted_choice (map fst (plan_types cfg)) (map snd (plan_types cfg)) w5;
          (payer, payer_nm, w7) \<leftarrow>
            (if plan_type = ''CASH_PAY'' then Some (CNone, CNone, w6)
             else do { (p, w61) \<leftarrow> weighted_choice (map fst (payers cfg)) (map snd (payers cfg)) w6;
                       pid \<leftarrow> getitem p ''payer_id'';
                       pnm \<leftarrow> getitem p ''payer_name'';
                       Some (pid, pnm, w61) });
          (channel, w8) \<leftarrow> weighted_choice (map fst (channels cfg)) (map snd (channels cfg)) w7;
          let (u2, w9) = py_random w8;
          (hub_vendor, w10) \<leftarrow>
            (if u2 < 9 / 10 then
               do { (hv, w91) \<leftarrow>
                      weighted_choice (map fst (hub_vendors cfg)) (map snd (hub_vendors cfg)) w9;
                    Some (CStr hv, w91) }
             else Some (CNone, w9));
          (specialty, w11) \<leftarrow>
            weighted_choice (map fst (prescriber_specialties cfg))
              (map snd (prescriber_specialties cfg)) w10;
          program_id \<leftarrow> getitem product ''product_id'';
          program_name \<leftarrow> getitem product ''product_name'';
          indic \<leftarrow> getitem product ''indication'';
          ndc_code \<leftarrow> getitem product ''ndc'';
          (npi, w12) \<leftarrow> generate_npi w11;
          (patient_state, w13) \<leftarrow> generate_us_states_weighted w12;
          (zip3, w14) \<leftarrow> py_randint 100 999 w13;
          let (created_at, w15) = datetime_now w14;
          Some ([(''enrollment_id'',
                    CStr (''PSP-'' @ dec (year_of L enrolled_ts) @ ''-'' @ fmt_d 6 (int i + 1))),
                 (''patient_id_hash'', CStr (hash_patient_id L i)),
                 (''program_id'', program_id),
                 (''program_name'', program_name),
                 (''program_type'', CStr program_type),
                 (''indication'', indic),
                 (''ndc_code'', ndc_code),
                 (''enrolled_ts'', CTs enrolled_ts),
                 (''enrolled_month'', CStr (strftime_ym L enrolled_ts)),
                 (''inquiry_ts'', inquiry_ts),
                 (''enrollment_channel'', CStr channel),
                 (''hub_vendor'', hub_vendor),
                 (''payer_id'', payer),
                 (''payer_name'', payer_nm),
                 (''plan_type'', CStr plan_type),
                 (''prescriber_npi'', CStr npi),
                 (''prescriber_specialty'', CStr specialty),
                 (''patient_state'', CStr patient_state),
                 (''patient_zip3'', CStr (dec zip3)),
                 (''created_at'', CTs created_at)], w15) }"

fun enrollments_loop :: "libs \<Rightarrow> config \<Rightarrow> nat list \<Rightarrow> world \<Rightarrow> (row list \<times> world) option" where
  "enrollments_loop L cfg [] w = Some ([], w)"
| "enrollments_loop L cfg (i # rest) w =
     do { (e, w1) \<leftarrow> enrollment_record L cfg i w;
          (es, w2) \<leftarrow> enrollments_loop L cfg rest w1;
          Some (e # es, w2) }"

definition generate_enrollments :: "libs \<Rightarrow> config \<Rightarrow> world \<Rightarrow> (dataframe \<times> world) option" where
  "generate_enrollments L cfg w =
     do { let (start_time, w0) = datetime_now w;
          let seed = get_or (random_seed cfg) 42;
          w1 \<leftarrow> random_seed_np L seed (random_seed_py L seed w0);
          (enrs, w2) \<leftarrow> enrollments_loop L cfg [0..<nat (enrollments cfg)] w1;
          inject_data_quality_issues (from_records enrs) (data_quality cfg)
            [''enrolled_ts'', ''inquiry_ts''] (nullable_fields (data_quality cfg)) w2 }"

section \<open>ingest\_to\_bronze.py\<close>

text \<open>
  The file system is a map from paths to the frames the Parquet files hold; reading a
  file gives back the frame that was written. The function prints its verdict; the
  model returns it: \<open>None\<close> when the source is not found, else whether the row count
  read back from the bronze file equals the one of the source.
\<close>

definition assign_scalar :: "string \<Rightarrow> cell \<Rightarrow> dataframe \<Rightarrow> dataframe" where
  \<comment> \<open>\<open>df[col] = v\<close>: a new column goes last, an existing one is overwritten\<close>
  "assign_scalar col v df =
     \<lparr>columns = (if col \<in> set (columns df) then columns df else columns df @ [col]),
      rows = map (put col v) (rows df)\<rparr>"

definition ingest_source_to_bronze ::
  "string \<Rightarrow> (string \<rightharpoonup> dataframe) \<Rightarrow> world \<Rightarrow> (string \<rightharpoonup> dataframe) \<times> bool option \<times> world" where
  "ingest_source_to_bronze source_name fs w =
     (let (start_time, w1) = datetime_now w;
          raw_path = ''data/raw_samples/'' @ source_name @ ''.parquet'';
          bronze_path = ''data/bronze/'' @ source_name @ ''.parquet'' in
      case fs raw_path of
        None \<Rightarrow> (fs, None, w1)
      | Some df \<Rightarrow>
          (let row_count = length (rows df);
               (loaded_at, w2) = datetime_now w1;
               df1 = assign_scalar ''_bronze_loaded_at'' (CTs loaded_at) df;
               df2 = assign_scalar ''_bronze_source'' (CStr (source_name @ ''.parquet'')) df1;
               fs' = fs(bronze_path \<mapsto> df2);
               (finished, w3) = datetime_now w2
           in case fs' bronze_path of
                None \<Rightarrow> (fs', None, w3)
              | Some verify_df \<Rightarrow> (fs', Some (length (rows verify_df) = row_count), w3)))"

section \<open>Predicates used in the statements\<close>

text \<open>
  What \<open>generate_cases\<close> needs of an enrollment row to get through its loop: an
  \<open>enrolled_ts\<close> that is a datetime (or a date), an \<open>enrollment_id\<close> that is a string
  with at least three parts between dashes, and a \<open>patient_id_hash\<close>.
\<close>

definition enrollment_row_ok :: "row \<Rightarrow> bool" where
  "enrollment_row_ok e \<longleftrightarrow>
     (case getitem e ''enrolled_ts'' of Some (CTs t) \<Rightarrow> True | Some (CDate d) \<Rightarrow> True | _ \<Rightarrow> False) \<and>
     (case getitem e ''enrollment_id'' of
        Some (CStr s) \<Rightarrow> 2 < length (split_on CHR ''-'' s) | _ \<Rightarrow> False) \<and>
     getitem e ''patient_id_hash'' \<noteq> None"

text \<open>
  A case row \<open>c\<close> is the case of the enrollment row \<open>e\<close>: it has the ten columns of a
  case, the enrollment's id and patient hash, one of the three statuses, and a closing
  time and reason that are set for a closed case and null otherwise.
\<close>

definition case_matches :: "row \<Rightarrow> row \<Rightarrow> bool" where
  "case_matches e c \<longleftrightarrow>
     map fst c = [''case_id'', ''enrollment_id'', ''patient_id_hash'', ''case_opened_ts'',
                  ''opened_month'', ''case_manager_id'', ''current_status'', ''closed_ts'',
                  ''closure_reason'', ''created_at''] \<and>
     getitem c ''enrollment_id'' = getitem e ''enrollment_id'' \<and>
     getitem c ''patient_id_hash'' = getitem e ''patient_id_hash'' \<and>
     getitem c ''current_status'' \<in> {Some (CStr ''ACTIVE''), Some (CStr ''CLOSED''), Some (CStr ''ON_HOLD'')} \<and>
     (if getitem c ''current_status'' = Some (CStr ''CLOSED'')
      then (\<exists>t r. getitem c ''closed_ts'' = Some t \<and> t \<noteq> CNone \<and>
                   getitem c ''closure_reason'' = Some (CStr r))
      else getitem c ''closed_ts'' = Some CNone \<and> getitem c ''closure_reason'' = Some CNone)"

text \<open>
  The path a case is to walk, in the words of the specification: by its status and,
  for a closed case, its closure reason. Every status other than ACTIVE and CLOSED is
  treated as ON\_HOLD is.
\<close>

definition path_for :: "row \<Rightarrow> string list \<Rightarrow> bool" where
  "path_for case_row path \<longleftrightarrow>
     (if getitem case_row ''current_status'' = Some (CStr ''ACTIVE'') then path = successful
      else if getitem case_row ''current_status'' = Some (CStr ''CLOSED'') then
        (if getitem case_row ''closure_reason'' = Some (CStr ''COMPLETED_THERAPY'')
         then path = successful @ [''CLOSED'']
         else path = abandoned_early \<or> path = abandoned_at_bv \<or> path = abandoned_at_pa)
      else (\<exists>n. 3 \<le> n \<and> n \<le> 6 \<and> path = take n successful))"






text \<open>
  The days on which an enrollment id has a shipment in a shipments frame (the date of
  each of its ship dates, whether stored as a date or as a datetime), and a row that
  agrees with another outside a set of columns.
\<close>

definition ship_days :: "dataframe \<Rightarrow> cell \<Rightarrow> int list" where
  "ship_days shipments_df key =
     concat (map (\<lambda>s. case cell_at s ''ship_date'' of
                         CDate d \<Rightarrow> [d] | CTs t \<Rightarrow> [t div 86400000000] | _ \<Rightarrow> [])
               (filter (\<lambda>s. cell_at s ''enrollment_id'' = key) (rows shipments_df)))"

definition agrees_outside :: "string set \<Rightarrow> row \<Rightarrow> row \<Rightarrow> bool" where
  "agrees_outside S r r' \<longleftrightarrow> (\<forall>c. c \<notin> S \<longrightarrow> cell_at r' c = cell_at r c)"

section \<open>Concrete inputs\<close>

text \<open>
  Small inputs on which the definitions are run: a world whose generators return
  0, 1, 2, ... as raw draws and whose clock reads 1000, 1001, ...; stand-ins for the
  library functions; a frame of two rows.
\<close>

definition world0 :: world where
  "world0 = \<lparr>py_rng = RNG (\<lambda>k. int k) 0, np_rng = RNG (\<lambda>k. int k) 0, clock = (\<lambda>k. 1000 + int k), ticks = 0\<rparr>"



definition libs0 :: libs where
  "libs0 = \<lparr>py_seeded = (\<lambda>s k. int k), np_seeded = (\<lambda>s k. int k), sha256_hex = (\<lambda>s. replicate 64 CHR ''0''),
            year_of = (\<lambda>t. 1970 + t div 31556952000000),
            strftime_ym = (\<lambda>t. dec (1970 + t div 31556952000000) @ ''-01'')\<rparr>"

definition dq_off :: dq_config where
  "dq_off = \<lparr>inject_issues = Some False, duplicate_rate = None, null_rate_optional = None,
             future_date_rate = None, nullable_fields = []\<rparr>"

definition config0 :: config where
  "config0 = \<lparr>random_seed = Some 42, enrollments = 2, start_date = 0, end_date = days 365,
               years_of_data = 1, claims_per_patient_year = 2, shipments_per_shipped_patient = 2,
               first_shipment = 1, refill_cadence = [(30, 1)],
               channels = [(''WEB'', 1)], hub_vendors = [(''HUB_A'', 1)],
               program_types = [(''COPAY'', 1)],
               products = [([(''product_id'', CStr ''P1''), (''product_name'', CStr ''Drug''),
                             (''indication'', CStr ''RA''), (''ndc'', CStr ''00000-0000-00'')], 1)],
               payers = [([(''payer_id'', CStr ''PAY1''), (''payer_name'', CStr ''Payer'')], 1)],
               plan_types = [(''COMMERCIAL'', 1)],
               prescriber_specialties = [(''RHEUM'', 1)],
               data_quality = dq_off\<rparr>"

definition enrollments0 :: dataframe where
  "enrollments0 =
     \<lparr>columns = [''enrollment_id'', ''patient_id_hash'', ''program_name'', ''ndc_code'', ''enrolled_ts'',
                 ''inquiry_ts'', ''payer_id'', ''plan_type'', ''prescriber_npi''],
      rows = [[(''enrollment_id'', CStr ''PSP-2024-000001''), (''patient_id_hash'', CStr ''aa''),
               (''program_name'', CStr ''Drug''), (''ndc_code'', CStr ''0001''),
               (''enrolled_ts'', CTs (days 100)), (''inquiry_ts'', CTs (days 95)),
               (''payer_id'', CStr ''PAY1''), (''plan_type'', CStr ''COMMERCIAL''),
               (''prescriber_npi'', CStr ''1234567890'')],
              [(''enrollment_id'', CStr ''PSP-2024-000002''), (''patient_id_hash'', CStr ''bb''),
               (''program_name'', CStr ''Drug''), (''ndc_code'', CStr ''0001''),
               (''enrolled_ts'', CTs (days 200)), (''inquiry_ts'', CNone),
               (''payer_id'', CNone), (''plan_type'', CStr ''CASH_PAY''),
               (''prescriber_npi'', CStr ''1234567891'')]]\<rparr>"


definition enrollments1 :: dataframe where
  "enrollments1 =
     \<lparr>columns = [''enrollment_id'', ''patient_id_hash'', ''program_name'', ''ndc_code'', ''enrolled_ts'',
                 ''inquiry_ts'', ''payer_id'', ''plan_type'', ''prescriber_npi''],
      rows = [[(''enrollment_id'', CStr ''PSP-2024-000001''), (''patient_id_hash'', CStr ''aa''),
               (''program_name'', CStr ''Drug''), (''ndc_code'', CStr ''0001''),
               (''enrolled_ts'', CTs (days 100)), (''inquiry_ts'', CTs (days 95)),
               (''payer_id'', CStr ''PAY1''), (''plan_type'', CStr ''COMMERCIAL''),
               (''prescriber_npi'', CStr ''1234567890'')]]\<rparr>"

definition shipments1 :: dataframe where
  "shipments1 =
     \<lparr>columns = [''shipment_id'', ''enrollment_id'', ''ship_date''],
      rows = [[(''shipment_id'', CStr ''SHIP-00000001''), (''enrollment_id'', CStr ''PSP-2024-000001''),
               (''ship_date'', CDate 110)],
              [(''shipment_id'', CStr ''SHIP-00000002''), (''enrollment_id'', CStr ''PSP-2024-000001''),
               (''ship_date'', CDate 140)]]\<rparr>"

section \<open>Facts about the library model\<close>

lemma py_choices_mem: "py_choices population weights w = Some (x, w') \<Longrightarrow> x \<in> set population"
proof -
  assume a: "py_choices population weights w = Some (x, w')"
  let ?n = "length population"
  let ?cum = "accumulate 0 weights"
  let ?k = "length (takeWhile (\<lambda>c. c \<le> fst (py_random w) * last ?cum) (take (?n - 1) ?cum))"
  from a have n: "0 < ?n" and x: "x = population ! ?k"
    by (auto simp: py_choices_def Let_def split: if_splits)
  have "?k \<le> length (take (?n - 1) ?cum)" by (rule length_takeWhile_le)
  also have "\<dots> \<le> ?n - 1" by simp
  finally have "?k < ?n" using n by linarith
  with x show ?thesis by simp
qed

lemma py_choices_total:
  "population \<noteq> [] \<Longrightarrow> length weights = length population \<Longrightarrow> 0 < last (accumulate 0 weights) \<Longrightarrow>
     \<exists>x w'. py_choices population weights w = Some (x, w')"
  by (simp add: py_choices_def Let_def)

lemma py_randint_range: "py_randint a b w = Some (x, w') \<Longrightarrow> a \<le> x \<and> x \<le> b"
proof -
  assume h: "py_randint a b w = Some (x, w')"
  then have ab: "a \<le> b" and x: "x = a + fst (randbelow (b - a + 1) (py_rng w))"
    by (auto simp: py_randint_def split: if_splits)
  have "0 \<le> fst (randbelow (b - a + 1) (py_rng w)) \<and> fst (randbelow (b - a + 1) (py_rng w)) < b - a + 1"
    using ab pos_mod_sign[of "b - a + 1" "fst (draw (py_rng w))"]
      pos_mod_bound[of "b - a + 1" "fst (draw (py_rng w))"]
    by (simp add: randbelow_def)
  with x ab show ?thesis by linarith
qed

lemma py_randint_total: "a \<le> b \<Longrightarrow> \<exists>x w'. py_randint a b w = Some (x, w')"
  by (simp add: py_randint_def)

lemma randbelow_index: "xs \<noteq> [] \<Longrightarrow> nat (fst (randbelow (int (length xs)) g)) < length xs"
  by (simp add: randbelow_def nat_less_iff)

lemma py_choice_mem: "py_choice xs w = Some (x, w') \<Longrightarrow> x \<in> set xs"
  by (auto simp: py_choice_def randbelow_index split: if_splits)

lemma rows_from_records: "rows (from_records rs) = rs"
  by (simp add: from_records_def)

section \<open>Properties of the data-quality injector\<close>








lemma np_choice_no_replace_total: "k \<le> n \<Longrightarrow> \<exists>ix w'. np_choice_no_replace n k w = Some (ix, w')"
  by (simp add: np_choice_no_replace_def)











lemma inject_disabled:
  "\<not> get_or (inject_issues config) False \<Longrightarrow>
     inject_data_quality_issues df config dcs ncs w = Some (df, w)"
  by (simp add: inject_data_quality_issues_def)




section \<open>Properties of the case generator\<close>

lemma case_of_enrollment_SomeE:
  assumes "case_of_enrollment L e w = Some (c, w')"
  obtains enrolled_ts h w1 opened status w2 closed reason w3 cm w4 eid p1 p2 pid month where
    "getitem e ''enrolled_ts'' = Some enrolled_ts"
    "py_randint (- 12) 12 w = Some (h, w1)"
    "timestamp_add enrolled_ts (hours h) = Some opened"
    "py_choices [''ACTIVE'', ''CLOSED'', ''ON_HOLD''] [3 / 5, 7 / 20, 1 / 20] w1 = Some (status, w2)"
    "(if status = ''CLOSED'' then
               do { (days_to_close, w21) \<leftarrow> py_randint 30 180 w2;
                    closed_ts \<leftarrow> timestamp_add opened (days days_to_close);
                    (closure_reason, w22) \<leftarrow>
                      py_choices [''COMPLETED_THERAPY'', ''ABANDONED'', ''LOST_TO_FOLLOWUP'',
                                  ''PATIENT_DECLINED'', ''TRANSFERRED'']
                                 [1 / 2, 1 / 4, 3 / 20, 7 / 100, 3 / 100] w21;
                    Some (closed_ts, CStr closure_reason, w22) }
             else Some (CNone, CNone, w2)) = Some (closed, reason, w3)"
    "py_randint 1 20 w3 = Some (cm, w4)"
    "getitem e ''enrollment_id'' = Some eid"
    "id_part eid 1 = Some p1" "id_part eid 2 = Some p2"
    "getitem e ''patient_id_hash'' = Some pid"
    "format_month_partition L opened = Some month"
    "c = [(''case_id'', CStr (''CASE-'' @ p1 @ ''-'' @ p2)),
          (''enrollment_id'', eid),
          (''patient_id_hash'', pid),
          (''case_opened_ts'', opened),
          (''opened_month'', CStr month),
          (''case_manager_id'', CStr (''CM-'' @ fmt_d 3 cm)),
          (''current_status'', CStr status),
          (''closed_ts'', closed),
          (''closure_reason'', reason),
          (''created_at'', CTs (fst (datetime_now w4)))]"
    "w' = snd (datetime_now w4)"
  using assms unfolding case_of_enrollment_def
  by (auto simp: bind_eq_Some_conv datetime_now_def)


lemma timestamp_add_month:
  "timestamp_add v d = Some v' \<Longrightarrow> format_month_partition L v' = Some m \<Longrightarrow>
     timestamp_add v' d' = Some v'' \<Longrightarrow> v'' \<noteq> CNone"
  by (auto simp: timestamp_add_def format_month_partition_def split: cell.splits)

lemma format_month_not_null: "format_month_partition L v = Some m \<Longrightarrow> v \<noteq> CNone"
  by (auto simp: format_month_partition_def)

lemma timestamp_add_not_null: "timestamp_add v d = Some v' \<Longrightarrow> v \<noteq> CNone \<Longrightarrow> v' \<noteq> CNone"
  by (auto simp: timestamp_add_def split: cell.splits)

lemma case_of_enrollment_matches:
  assumes "case_of_enrollment L e w = Some (c, w')"
  shows "case_matches e c"
proof -
  from assms obtain enrolled_ts h w1 opened status w2 closed reason w3 cm w4 eid p1 p2 pid month where
    st: "py_choices [''ACTIVE'', ''CLOSED'', ''ON_HOLD''] [3 / 5, 7 / 20, 1 / 20] w1 = Some (status, w2)" and
    cl: "(if status = ''CLOSED'' then
               do { (days_to_close, w21) \<leftarrow> py_randint 30 180 w2;
                    closed_ts \<leftarrow> timestamp_add opened (days days_to_close);
                    (closure_reason, w22) \<leftarrow>
                      py_choices [''COMPLETED_THERAPY'', ''ABANDONED'', ''LOST_TO_FOLLOWUP'',
                                  ''PATIENT_DECLINED'', ''TRANSFERRED'']
                                 [1 / 2, 1 / 4, 3 / 20, 7 / 100, 3 / 100] w21;
                    Some (closed_ts, CStr closure_reason, w22) }
             else Some (CNone, CNone, w2)) = Some (closed, reason, w3)" and
    eid: "getitem e ''enrollment_id'' = Some eid" and
    pid: "getitem e ''patient_id_hash'' = Some pid" and
    mo: "format_month_partition L opened = Some month" and
    c: "c = [(''case_id'', CStr (''CASE-'' @ p1 @ ''-'' @ p2)),
          (''enrollment_id'', eid),
          (''patient_id_hash'', pid),
          (''case_opened_ts'', opened),
          (''opened_month'', CStr month),
          (''case_manager_id'', CStr (''CM-'' @ fmt_d 3 cm)),
          (''current_status'', CStr status),
          (''closed_ts'', closed),
          (''closure_reason'', reason),
          (''created_at'', CTs (fst (datetime_now w4)))]"
    by (rule case_of_enrollment_SomeE)
  from py_choices_mem[OF st] have s3: "status = ''ACTIVE'' \<or> status = ''CLOSED'' \<or> status = ''ON_HOLD''"
    by simp
  have closed_case: "\<exists>r. closed \<noteq> CNone \<and> reason = CStr r" if "status = ''CLOSED''"
  proof -
    from cl that obtain d r where "timestamp_add opened d = Some closed" "reason = CStr r"
      by (auto simp: bind_eq_Some_conv)
    with format_month_not_null[OF mo] timestamp_add_not_null show ?thesis by blast
  qed
  have open_case: "closed = CNone \<and> reason = CNone" if "status \<noteq> ''CLOSED''"
    using cl that by simp
  show ?thesis
    using s3 closed_case open_case eid pid
    unfolding case_matches_def c getitem_def by auto
qed


lemma cases_loop_matches:
  "cases_loop L es w = Some (cs, w') \<Longrightarrow> list_all2 case_matches es cs"
proof (induction es arbitrary: w cs)
  case Nil
  then show ?case by simp
next
  case (Cons e es)
  from Cons.prems obtain c w1 cs' where
    a: "case_of_enrollment L e w = Some (c, w1)" and
    b: "cases_loop L es w1 = Some (cs', w')" and c: "cs = c # cs'"
    by (auto simp: bind_eq_Some_conv)
  from case_of_enrollment_matches[OF a] Cons.IH[OF b] c show ?case by simp
qed

lemma case_of_enrollment_total:
  assumes "enrollment_row_ok e"
  shows "\<exists>c w'. case_of_enrollment L e w = Some (c, w')"
proof -
  from assms obtain ts s pid where
    ts: "getitem e ''enrolled_ts'' = Some ts" "(\<exists>t. ts = CTs t) \<or> (\<exists>t. ts = CDate t)" and
    s: "getitem e ''enrollment_id'' = Some (CStr s)" "2 < length (split_on CHR ''-'' s)" and
    pid: "getitem e ''patient_id_hash'' = Some pid"
    by (auto simp: enrollment_row_ok_def split: option.splits cell.splits)
  obtain h w1 where h: "py_randint (- 12) 12 w = Some (h, w1)"
    using py_randint_total[of "- 12" 12 w] by auto
  from ts(2) obtain opened where o: "timestamp_add ts (hours h) = Some opened"
    "(\<exists>t. opened = CTs t) \<or> (\<exists>t. opened = CDate t)"
    by (auto simp: timestamp_add_def)
  obtain status w2 where st: "py_choices [''ACTIVE'', ''CLOSED'', ''ON_HOLD''] [3 / 5, 7 / 20, 1 / 20] w1 = Some (status, w2)"
    using py_choices_total[of "[''ACTIVE'', ''CLOSED'', ''ON_HOLD'']" "[3 / 5, 7 / 20, 1 / 20]" w1] by auto
  have "\<exists>closed reason w3. (if status = ''CLOSED'' then
               do { (days_to_close, w21) \<leftarrow> py_randint 30 180 w2;
                    closed_ts \<leftarrow> timestamp_add opened (days days_to_close);
                    (closure_reason, w22) \<leftarrow>
                      py_choices [''COMPLETED_THERAPY'', ''ABANDONED'', ''LOST_TO_FOLLOWUP'',
                                  ''PATIENT_DECLINED'', ''TRANSFERRED'']
                                 [1 / 2, 1 / 4, 3 / 20, 7 / 100, 3 / 100] w21;
                    Some (closed_ts, CStr closure_reason, w22) }
             else Some (CNone, CNone, w2)) = Some (closed, reason, w3)"
  proof (cases "status = ''CLOSED''")
    case False
    then show ?thesis by simp
  next
    case True
    obtain d w21 where d: "py_randint 30 180 w2 = Some (d, w21)"
      using py_randint_total[of 30 180 w2] by auto
    from o(2) obtain closed where cl: "timestamp_add opened (days d) = Some closed"
      by (auto simp: timestamp_add_def)
    obtain r w22 where r: "py_choices [''COMPLETED_THERAPY'', ''ABANDONED'', ''LOST_TO_FOLLOWUP'',
                                  ''PATIENT_DECLINED'', ''TRANSFERRED'']
                                 [1 / 2, 1 / 4, 3 / 20, 7 / 100, 3 / 100] w21 = Some (r, w22)"
      using py_choices_total[of "[''COMPLETED_THERAPY'', ''ABANDONED'', ''LOST_TO_FOLLOWUP'',
                                  ''PATIENT_DECLINED'', ''TRANSFERRED'']" "[1 / 2, 1 / 4, 3 / 20, 7 / 100, 3 / 100]" w21]
      by auto
    from True d cl r show ?thesis by simp
  qed
  then obtain closed reason w3 where cl: "(if status = ''CLOSED'' then
               do { (days_to_close, w21) \<leftarrow> py_randint 30 180 w2;
                    closed_ts \<leftarrow> timestamp_add opened (days days_to_close);
                    (closure_reason, w22) \<leftarrow>
                      py_choices [''COMPLETED_THERAPY'', ''ABANDONED'', ''LOST_TO_FOLLOWUP'',
                                  ''PATIENT_DECLINED'', ''TRANSFERRED'']
                                 [1 / 2, 1 / 4, 3 / 20, 7 / 100, 3 / 100] w21;
                    Some (closed_ts, CStr closure_reason, w22) }
             else Some (CNone, CNone, w2)) = Some (closed, reason, w3)" by blast
  obtain cm w4 where cm: "py_randint 1 20 w3 = Some (cm, w4)"
    using py_randint_total[of 1 20 w3] by auto
  from s(2) obtain p1 p2 where p: "id_part (CStr s) 1 = Some p1" "id_part (CStr s) 2 = Some p2"
    by (auto simp: id_part_def)
  from o(2) obtain month where m: "format_month_partition L opened = Some month"
    by (auto simp: format_month_partition_def)
  show ?thesis
    unfolding case_of_enrollment_def
    by (simp only: ts(1) h o(1) st cl cm s(1) p pid m bind.bind_lunit prod.case) (simp add: case_prod_beta)
qed

lemma cases_loop_total:
  "\<forall>e \<in> set es. enrollment_row_ok e \<Longrightarrow> \<exists>cs w'. cases_loop L es w = Some (cs, w')"
proof (induction es arbitrary: w)
  case Nil
  then show ?case by simp
next
  case (Cons e es)
  from Cons.prems obtain c w1 where a: "case_of_enrollment L e w = Some (c, w1)"
    using case_of_enrollment_total[of e L w] by auto
  from Cons.prems Cons.IH[of w1] obtain cs w' where b: "cases_loop L es w1 = Some (cs, w')"
    by auto
  from a b show ?case by simp
qed

text \<open>
  Claim C6. With data-quality injection disabled, whatever \<open>generate_cases\<close> returns
  has exactly one case row per enrollment row, in the same order, and each case row is
  the case of its enrollment row in the sense of \<open>case_matches\<close>: the enrollment's
  \<open>enrollment_id\<close> and \<open>patient_id_hash\<close>, a status among ACTIVE, CLOSED and ON_HOLD,
  and \<open>closed_ts\<close> and \<open>closure_reason\<close> set when and only when the status is CLOSED.
  And it does return when the seed is one numpy accepts and every enrollment row has a
  datetime \<open>enrolled_ts\<close>, a three-part \<open>enrollment_id\<close> and a \<open>patient_id_hash\<close>.
\<close>

theorem generate_cases_one_per_enrollment:
  assumes off: "\<not> get_or (inject_issues (data_quality cfg)) False"
  shows "(\<forall>out w'. generate_cases L enrollments_df cfg w = Some (out, w') \<longrightarrow>
            list_all2 case_matches (rows enrollments_df) (rows out)) \<and>
         (0 \<le> get_or (random_seed cfg) 42 \<and> get_or (random_seed cfg) 42 < 2 ^ 32 \<and>
          (\<forall>e \<in> set (rows enrollments_df). enrollment_row_ok e) \<longrightarrow>
            (\<exists>out w'. generate_cases L enrollments_df cfg w = Some (out, w')))"
proof (intro conjI allI impI)
  fix out w'
  assume "generate_cases L enrollments_df cfg w = Some (out, w')"
  then obtain w1 cs where "cases_loop L (rows enrollments_df) w1 = Some (cs, w')" "out = from_records cs"
    by (auto simp: generate_cases_def Let_def inject_disabled[OF off] bind_eq_Some_conv split: prod.splits)
  with cases_loop_matches show "list_all2 case_matches (rows enrollments_df) (rows out)"
    by (simp add: rows_from_records)
next
  assume a: "0 \<le> get_or (random_seed cfg) 42 \<and> get_or (random_seed cfg) 42 < 2 ^ 32 \<and>
          (\<forall>e \<in> set (rows enrollments_df). enrollment_row_ok e)"
  let ?seed = "get_or (random_seed cfg) 42"
  from a obtain w1 where s: "random_seed_np L ?seed (random_seed_py L ?seed (snd (datetime_now w))) = Some w1"
    by (auto simp: random_seed_np_def)
  from a cases_loop_total[of "rows enrollments_df" L w1] obtain cs w2 where
    c: "cases_loop L (rows enrollments_df) w1 = Some (cs, w2)" by blast
  show "\<exists>out w'. generate_cases L enrollments_df cfg w = Some (out, w')"
    using s c by (simp add: generate_cases_def Let_def inject_disabled[OF off] case_prod_beta)
qed

theorem generate_cases_one_per_enrollment_witness:
  "\<exists>out w'. generate_cases libs0 enrollments0 config0 world0 = Some (out, w') \<and>
     length (rows out) = 2 \<and> list_all2 case_matches (rows enrollments0) (rows out)"
proof -
  have off: "\<not> get_or (inject_issues (data_quality config0)) False"
    by (simp add: config0_def dq_off_def get_or_def)
  have ok: "0 \<le> get_or (random_seed config0) 42 \<and> get_or (random_seed config0) 42 < 2 ^ 32 \<and>
          (\<forall>e \<in> set (rows enrollments0). enrollment_row_ok e)"
    by (simp add: config0_def get_or_def enrollments0_def enrollment_row_ok_def getitem_def)
  from generate_cases_one_per_enrollment[OF off, of libs0 enrollments0 world0] ok
  obtain out w' where g: "generate_cases libs0 enrollments0 config0 world0 = Some (out, w')"
    and m: "list_all2 case_matches (rows enrollments0) (rows out)"
    by blast
  from m have "length (rows out) = 2" by (auto simp: enrollments0_def dest: list_all2_lengthD)
  with g m show ?thesis by blast
qed

section \<open>Properties of the status-history generator\<close>

lemma choose_path_for:
  assumes "choose_path case_row w = Some (path, w')"
  shows "path_for case_row path"
proof -
  from assms obtain st where st: "getitem case_row ''current_status'' = Some st"
    by (auto simp: choose_path_def bind_eq_Some_conv)
  show ?thesis
  proof (cases "st = CStr ''ACTIVE''")
    case True
    with assms st show ?thesis by (simp add: choose_path_def path_for_def)
  next
    case na: False
    show ?thesis
    proof (cases "st = CStr ''CLOSED''")
      case True
      with assms st na obtain cr where cr: "getitem case_row ''closure_reason'' = Some cr"
        by (auto simp: choose_path_def bind_eq_Some_conv)
      show ?thesis
      proof (cases "cr = CStr ''COMPLETED_THERAPY''")
        case True
        with assms st na \<open>st = CStr ''CLOSED''\<close> cr show ?thesis
          by (simp add: choose_path_def path_for_def)
      next
        case False
        with assms st na \<open>st = CStr ''CLOSED''\<close> cr obtain k w1 where
          k: "py_choice [''abandoned_early'', ''abandoned_at_bv'', ''abandoned_at_pa''] w = Some (k, w1)"
          and p: "status_paths k = Some path"
          by (auto simp: choose_path_def bind_eq_Some_conv)
        from py_choice_mem[OF k] p have "path = abandoned_early \<or> path = abandoned_at_bv \<or> path = abandoned_at_pa"
          by (auto simp: status_paths_def)
        with st \<open>st = CStr ''CLOSED''\<close> cr False show ?thesis
          by (simp add: path_for_def)
      qed
    next
      case False
      with assms st na obtain n w1 where n: "py_randint 3 6 w = Some (n, w1)" and p: "path = take (nat n) successful"
        by (auto simp: choose_path_def bind_eq_Some_conv)
      from py_randint_range[OF n] have "3 \<le> nat n \<and> nat n \<le> 6" by linarith
      with p st na False show ?thesis by (auto simp: path_for_def)
    qed
  qed
qed

lemma choose_path_length:
  assumes "choose_path case_row w = Some (path, w')"
  shows "path \<noteq> []"
  using choose_path_for[OF assms]
  by (auto simp: path_for_def successful_def abandoned_early_def abandoned_at_bv_def abandoned_at_pa_def split: if_splits)


























end
